theory Spec2Isabelle
  imports Main "HOL-Library.Multiset"
begin

section \<open>The in-memory storage of the Thoughts application\<close>

text \<open>
  This theory embeds the class \<open>MemStorage\<close> of the server's storage module: the clinic,
  thought and history tables, the department operations with their cascade over the
  thoughts, the thought life cycle with its history log, and the two queries
  \<open>getThoughtsByClinic\<close> and \<open>getThoughtHistory\<close>.

  Conventions of the embedding.
  \<^item> A method of the class is a function from the state before the call to the returned
    value paired with the state after the call. \<open>Promise\<close>s are not modelled: every
    method body runs to completion without yielding.
  \<^item> \<open>new Date()\<close> and \<open>Date.now()\<close> read the clock; the reading is the argument \<open>now\<close>,
    in milliseconds since the epoch. A \<open>Date\<close> is its time value, an \<open>int\<close>.
  \<^item> A column that the schema leaves nullable is an \<open>option\<close>; \<open>None\<close> is \<open>null\<close>.
  \<^item> Identifiers are \<open>int\<close> (JavaScript numbers that the code only compares and increments).
  \<^item> A string is a \<open>string\<close> of ASCII characters; \<open>console.log\<close> is dropped.
  \<^item> The columns of the tables share names (\<open>id\<close>, \<open>title\<close>, \<open>createdAt\<close>), so each
    record prefixes its fields: \<open>u_\<close> for \<open>User\<close>, \<open>c_\<close> for \<open>Clinic\<close>, \<open>t_\<close> for
    \<open>Thought\<close>, \<open>h_\<close> for \<open>ThoughtHistory\<close>, \<open>ic_\<close>, \<open>it_\<close>, \<open>iu_\<close> for the insert types,
    \<open>pt_\<close> for \<open>Partial<InsertThought>\<close> and \<open>f_\<close> for the filters. The parameter \<open>id\<close>
    is \<open>id'\<close>.
\<close>

subsection \<open>The JavaScript built-ins that the storage uses\<close>

text \<open>\<open>String.prototype.trim\<close> on ASCII text: tab, line feed, vertical tab, form feed,
  carriage return and space are stripped from both ends.\<close>

definition isWhiteSpace :: "char \<Rightarrow> bool" where
  "isWhiteSpace c = (let n = (of_char c :: nat) in (9 \<le> n \<and> n \<le> 13) \<or> n = 32)"

definition trim :: "string \<Rightarrow> string" where
  "trim s = rev (dropWhile isWhiteSpace (rev (dropWhile isWhiteSpace s)))"

text \<open>\<open>String.prototype.toLowerCase\<close> on ASCII text.\<close>

definition toLowerCase_char :: "char \<Rightarrow> char" where
  "toLowerCase_char c =
     (let n = (of_char c :: nat) in if 65 \<le> n \<and> n \<le> 90 then char_of (n + 32) else c)"

definition toLowerCase :: "string \<Rightarrow> string" where
  "toLowerCase s = map toLowerCase_char s"

text \<open>\<open>Array.prototype.findIndex\<close>; the result \<open>-1\<close> is \<open>None\<close>.\<close>

fun findIndex :: "('a \<Rightarrow> bool) \<Rightarrow> 'a list \<Rightarrow> nat option" where
  "findIndex P [] = None"
| "findIndex P (x # xs) = (if P x then Some 0 else map_option Suc (findIndex P xs))"

text \<open>\<open>Array.prototype.some\<close> and \<open>Array.prototype.filter\<close> with a callback that also
  receives the index.\<close>

definition some_indexed :: "('a \<Rightarrow> nat \<Rightarrow> bool) \<Rightarrow> 'a list \<Rightarrow> bool" where
  "some_indexed P xs = list_ex (\<lambda>(i, x). P x i) (enumerate 0 xs)"

definition filter_indexed :: "('a \<Rightarrow> nat \<Rightarrow> bool) \<Rightarrow> 'a list \<Rightarrow> 'a list" where
  "filter_indexed P xs = map snd (filter (\<lambda>(i, x). P x i) (enumerate 0 xs))"

text \<open>A JavaScript \<open>Map\<close> keeps its entries in insertion order, and \<open>set\<close> on a key that
  is present replaces the value where it stands. It is a list of entries; the keys of a
  \<open>Map\<close> are distinct (\<open>Map_ok\<close>).\<close>

type_synonym ('k, 'v) Map = "('k \<times> 'v) list"

definition Map_ok :: "('k, 'v) Map \<Rightarrow> bool" where
  "Map_ok m = distinct (map fst m)"

definition Map_get :: "('k, 'v) Map \<Rightarrow> 'k \<Rightarrow> 'v option" where
  "Map_get m k = map_of m k"

fun Map_set :: "'k \<Rightarrow> 'v \<Rightarrow> ('k, 'v) Map \<Rightarrow> ('k, 'v) Map" where
  "Map_set k v [] = [(k, v)]"
| "Map_set k v (e # m) = (if fst e = k then (k, v) # m else e # Map_set k v m)"

definition Map_values :: "('k, 'v) Map \<Rightarrow> 'v list" where
  "Map_values m = map snd m"

definition Map_entries :: "('k, 'v) Map \<Rightarrow> ('k \<times> 'v) list" where
  "Map_entries m = m"

subsection \<open>The tables of the schema\<close>

record User =
  u_id :: int
  u_username :: string
  u_email :: string
  u_password :: string
  u_role :: string
  u_clinicId :: "int option"
  u_createdAt :: "int option"

record Clinic =
  c_id :: int
  c_name :: string
  c_url :: "string option"
  c_logoUrl :: "string option"
  c_departments :: "string list option"
  c_createdAt :: "int option"

record Thought =
  t_id :: int
  t_title :: string
  t_content :: string
  t_category :: string
  t_department :: "string option"
  t_authorId :: int
  t_clinicId :: int
  t_isDeleted :: "bool option"
  t_deletedAt :: "int option"
  t_deletedBy :: "int option"
  t_editCount :: "int option"
  t_lastEditedAt :: "int option"
  t_lastEditedBy :: "int option"
  t_isRead :: "bool option"
  t_readAt :: "int option"
  t_createdAt :: "int option"

datatype ChangeType = Created | Edited | Deleted

record ThoughtHistory =
  h_id :: int
  h_thoughtId :: int
  h_title :: "string option"
  h_content :: "string option"
  h_category :: "string option"
  h_department :: "string option"
  h_editedBy :: int
  h_editedAt :: "int option"
  h_changeType :: ChangeType

text \<open>\<open>InsertClinic\<close>: the clinic columns without \<open>id\<close> and \<open>createdAt\<close>; every column
  but \<open>name\<close> may be absent or null.\<close>

record InsertClinic =
  ic_name :: string
  ic_url :: "string option"
  ic_logoUrl :: "string option"
  ic_departments :: "string list option"

text \<open>\<open>InsertThought\<close>: the thought columns that the insert schema does not omit.\<close>

record InsertThought =
  it_title :: string
  it_content :: string
  it_category :: "string option"
  it_department :: "string option"
  it_authorId :: int
  it_clinicId :: int
  it_isRead :: "bool option"
  it_readAt :: "int option"

text \<open>\<open>Partial<InsertThought>\<close>: each property is absent (\<open>None\<close>) or carries the value
  that the spread writes over the stored one.\<close>

record ThoughtUpdates =
  pt_title :: "string option"
  pt_content :: "string option"
  pt_category :: "string option"
  pt_department :: "string option option"
  pt_authorId :: "int option"
  pt_clinicId :: "int option"
  pt_isRead :: "bool option option"
  pt_readAt :: "int option option"

record ThoughtWithAuthor = Thought +
  author :: User
  deletedByUser :: "User option"
  lastEditedByUser :: "User option"

record ThoughtHistoryWithUser = ThoughtHistory +
  editedByUser :: User

subsection \<open>The state of a \<open>MemStorage\<close> object\<close>

record MemStorage =
  users :: "(int, User) Map"
  clinics :: "(int, Clinic) Map"
  thoughts :: "(int, Thought) Map"
  thoughtHistory :: "(int, ThoughtHistory) Map"
  currentUserId :: int
  currentClinicId :: int
  currentThoughtId :: int
  currentHistoryId :: int

text \<open>The constructor.\<close>

definition MemStorage_new :: MemStorage where
  "MemStorage_new =
     \<lparr> users = [], clinics = [], thoughts = [], thoughtHistory = [],
       currentUserId = 1, currentClinicId = 1, currentThoughtId = 1, currentHistoryId = 1 \<rparr>"

subsection \<open>Clinic and department operations\<close>

text \<open>\<open>x || d\<close> on a nullable string: null and the empty string are falsy.\<close>

definition or_string :: "string option \<Rightarrow> string option \<Rightarrow> string option" where
  "or_string x d = (case x of None \<Rightarrow> d | Some s \<Rightarrow> if s = [] then d else Some s)"

text \<open>\<open>x || d\<close> on a nullable array: only null is falsy, an empty array is an object.\<close>

definition or_array :: "'a list option \<Rightarrow> 'a list \<Rightarrow> 'a list" where
  "or_array x d = (case x of None \<Rightarrow> d | Some xs \<Rightarrow> xs)"

definition createClinic :: "MemStorage \<Rightarrow> int \<Rightarrow> InsertClinic \<Rightarrow> Clinic \<times> MemStorage" where
  "createClinic s now insertClinic =
     (let clinic = \<lparr> c_id = currentClinicId s,
                      c_name = ic_name insertClinic,
                      c_url = or_string (ic_url insertClinic) None,
                      c_logoUrl = or_string (ic_logoUrl insertClinic) None,
                      c_departments = Some (or_array (ic_departments insertClinic) [''General'']),
                      c_createdAt = Some now \<rparr>
      in (clinic, s\<lparr> currentClinicId := currentClinicId s + 1,
                      clinics := Map_set (c_id clinic) clinic (clinics s) \<rparr>))"

definition getDepartmentsByClinic :: "MemStorage \<Rightarrow> int \<Rightarrow> string list \<times> MemStorage" where
  "getDepartmentsByClinic s clinicId =
     (case Map_get (clinics s) clinicId of
        None \<Rightarrow> ([''General''], s)
      | Some clinic \<Rightarrow> (or_array (c_departments clinic) [''General''], s))"

definition addDepartmentToClinic :: "MemStorage \<Rightarrow> int \<Rightarrow> string \<Rightarrow> bool \<times> MemStorage" where
  "addDepartmentToClinic s clinicId department =
     (case Map_get (clinics s) clinicId of
        None \<Rightarrow> (False, s)
      | Some clinic \<Rightarrow>
          let trimmedDepartment = trim department in
          if trimmedDepartment = [] then (False, s)
          else
            let departments = or_array (c_departments clinic) [];
                departmentExists =
                  list_ex (\<lambda>d. toLowerCase d = toLowerCase trimmedDepartment) departments
            in if departmentExists then (False, s)
               else
                 let updatedDepartments = departments @ [trimmedDepartment];
                     updatedClinic = clinic\<lparr> c_departments := Some updatedDepartments \<rparr>
                 in (True, s\<lparr> clinics := Map_set clinicId updatedClinic (clinics s) \<rparr>))"

text \<open>The loop of both cascades: over a snapshot of the entries, every thought of the
  clinic whose department is the stored name \<open>old\<close> is written back with the department
  \<open>new\<close>.\<close>

definition cascade_step :: "int \<Rightarrow> string \<Rightarrow> string \<Rightarrow> int \<times> Thought \<Rightarrow> (int, Thought) Map \<Rightarrow> (int, Thought) Map" where
  "cascade_step clinicId old new e m =
     (case e of (thoughtId, thought) \<Rightarrow>
        if t_department thought = Some old \<and> t_clinicId thought = clinicId
        then Map_set thoughtId (thought\<lparr> t_department := Some new \<rparr>) m
        else m)"

definition cascade :: "int \<Rightarrow> string \<Rightarrow> string \<Rightarrow> (int, Thought) Map \<Rightarrow> (int, Thought) Map" where
  "cascade clinicId old new m = fold (cascade_step clinicId old new) (Map_entries m) m"

definition updateDepartmentInClinic :: "MemStorage \<Rightarrow> int \<Rightarrow> string \<Rightarrow> string \<Rightarrow> bool \<times> MemStorage" where
  "updateDepartmentInClinic s clinicId oldDepartment newDepartment =
     (case Map_get (clinics s) clinicId of
        None \<Rightarrow> (False, s)
      | Some clinic \<Rightarrow>
          let trimmedOld = trim oldDepartment;
              trimmedNew = trim newDepartment
          in if trimmedOld = [] \<or> trimmedNew = [] then (False, s)
             else
               let departments = or_array (c_departments clinic) [] in
               case findIndex (\<lambda>d. toLowerCase d = toLowerCase trimmedOld) departments of
                 None \<Rightarrow> (False, s)
               | Some oldIndex \<Rightarrow>
                   let newExists =
                         some_indexed (\<lambda>d i. i \<noteq> oldIndex \<and> toLowerCase d = toLowerCase trimmedNew)
                           departments
                   in if newExists then (False, s)
                      else
                        let updatedDepartments = departments[oldIndex := trimmedNew];
                            thoughts' = cascade clinicId (departments ! oldIndex) trimmedNew (thoughts s);
                            updatedClinic = clinic\<lparr> c_departments := Some updatedDepartments \<rparr>
                        in (True, s\<lparr> thoughts := thoughts',
                                      clinics := Map_set clinicId updatedClinic (clinics s) \<rparr>))"

text \<open>\<open>updatedDepartments[0] || "General"\<close>: the first remaining name, unless there is
  none or it is the empty string.\<close>

definition first_or_General :: "string list \<Rightarrow> string" where
  "first_or_General ds = (case ds of [] \<Rightarrow> ''General'' | d # _ \<Rightarrow> if d = [] then ''General'' else d)"

definition removeDepartmentFromClinic :: "MemStorage \<Rightarrow> int \<Rightarrow> string \<Rightarrow> bool \<times> MemStorage" where
  "removeDepartmentFromClinic s clinicId department =
     (case Map_get (clinics s) clinicId of
        None \<Rightarrow> (False, s)
      | Some clinic \<Rightarrow>
          let trimmedDepartment = trim department in
          if trimmedDepartment = [] then (False, s)
          else
            let departments = or_array (c_departments clinic) [] in
            case findIndex (\<lambda>d. toLowerCase d = toLowerCase trimmedDepartment) departments of
              None \<Rightarrow> (False, s)
            | Some index \<Rightarrow>
                if length departments \<le> 1 then (False, s)
                else
                  let departmentToRemove = departments ! index;
                      updatedDepartments = filter_indexed (\<lambda>_ i. i \<noteq> index) departments;
                      thoughts' = cascade clinicId departmentToRemove
                                    (first_or_General updatedDepartments) (thoughts s);
                      updatedClinic = clinic\<lparr> c_departments := Some updatedDepartments \<rparr>
                  in (True, s\<lparr> thoughts := thoughts',
                                clinics := Map_set clinicId updatedClinic (clinics s) \<rparr>))"

subsection \<open>Dates\<close>

text \<open>A \<open>Date\<close> object is \<open>Some\<close> time value, or \<open>None\<close> when it is an Invalid Date. Comparing
  with an Invalid Date is comparing with \<open>NaN\<close>: false.\<close>

type_synonym JSDate = "int option"

definition Date_ge :: "JSDate \<Rightarrow> JSDate \<Rightarrow> bool" where
  "Date_ge a b = (case (a, b) of (Some x, Some y) \<Rightarrow> y \<le> x | _ \<Rightarrow> False)"

definition Date_le :: "JSDate \<Rightarrow> JSDate \<Rightarrow> bool" where
  "Date_le a b = (case (a, b) of (Some x, Some y) \<Rightarrow> x \<le> y | _ \<Rightarrow> False)"

text \<open>\<open>new Date(d || 0)\<close> for a nullable stored date \<open>d\<close>, and its \<open>getTime()\<close>.\<close>

definition Date_or_0 :: "int option \<Rightarrow> JSDate" where
  "Date_or_0 d = (case d of None \<Rightarrow> Some 0 | Some t \<Rightarrow> Some t)"

definition getTime_or_0 :: "int option \<Rightarrow> int" where
  "getTime_or_0 d = (case d of None \<Rightarrow> 0 | Some t \<Rightarrow> t)"

definition msPerDay :: int where
  "msPerDay = 86400000"

text \<open>The day number of the first day of a year, the leap years and the month lengths,
  as the language standard defines them for time values.\<close>

definition DayFromYear :: "int \<Rightarrow> int" where
  "DayFromYear y = 365 * (y - 1970) + (y - 1969) div 4 - (y - 1901) div 100 + (y - 1601) div 400"

definition InLeapYear :: "int \<Rightarrow> bool" where
  "InLeapYear y = (y mod 4 = 0 \<and> (y mod 100 \<noteq> 0 \<or> y mod 400 = 0))"

definition DaysInMonth :: "int \<Rightarrow> int \<Rightarrow> int" where
  "DaysInMonth y m =
     (if m = 2 then (if InLeapYear y then 29 else 28)
      else if m = 4 \<or> m = 6 \<or> m = 9 \<or> m = 11 then 30 else 31)"

definition MakeDay :: "int \<Rightarrow> int \<Rightarrow> int \<Rightarrow> int" where
  "MakeDay y m d = DayFromYear y + sum_list (map (DaysInMonth y) [1..m - 1]) + (d - 1)"

definition digitValue :: "char \<Rightarrow> int option" where
  "digitValue c = (let n = (of_char c :: nat) in if 48 \<le> n \<and> n \<le> 57 then Some (int n - 48) else None)"

fun digitsValue :: "int \<Rightarrow> string \<Rightarrow> int option" where
  "digitsValue acc [] = Some acc"
| "digitsValue acc (c # cs) =
     (case digitValue c of None \<Rightarrow> None | Some v \<Rightarrow> digitsValue (10 * acc + v) cs)"

text \<open>\<open>new Date(text)\<close> for the date-only form \<open>YYYY-MM-DD\<close> of the standard's date-time
  string format, which is read as midnight UTC of that day. Every other text is an
  Invalid Date in this model: the other forms that an engine accepts are not covered.\<close>

definition Date_parse :: "string \<Rightarrow> JSDate" where
  "Date_parse text =
     (case text of
        [y1, y2, y3, y4, s1, m1, m2, s2, d1, d2] \<Rightarrow>
          (if s1 = CHR ''-'' \<and> s2 = CHR ''-'' then
             (case (digitsValue 0 [y1, y2, y3, y4], digitsValue 0 [m1, m2], digitsValue 0 [d1, d2]) of
                (Some y, Some m, Some d) \<Rightarrow>
                  if 1 \<le> m \<and> m \<le> 12 \<and> 1 \<le> d \<and> d \<le> DaysInMonth y m
                  then Some (MakeDay y m d * msPerDay)
                  else None
              | _ \<Rightarrow> None)
           else None)
      | _ \<Rightarrow> None)"

text \<open>\<open>date.setHours(23, 59, 59, 999)\<close> works in the local time of the server. Local time
  is UTC plus a fixed offset \<open>tz\<close> in milliseconds (no daylight-saving change is modelled):
  the call keeps the local calendar day of the date and moves it to that day's last
  millisecond.\<close>

definition setHours_23_59_59_999 :: "int \<Rightarrow> JSDate \<Rightarrow> JSDate" where
  "setHours_23_59_59_999 tz date =
     (case date of
        None \<Rightarrow> None
      | Some t \<Rightarrow> Some (((t + tz) div msPerDay) * msPerDay + (msPerDay - 1) - tz))"

text \<open>\<open>xs.sort((a, b) => key(b) - key(a))\<close>: the sort is stable, and the comparator puts
  the larger key first.\<close>

definition sort_desc :: "('a \<Rightarrow> int) \<Rightarrow> 'a list \<Rightarrow> 'a list" where
  "sort_desc key xs = sort_key (\<lambda>x. - key x) xs"

subsection \<open>Thought operations\<close>

definition createHistoryEntry ::
  "MemStorage \<Rightarrow> int \<Rightarrow> int \<Rightarrow> Thought \<Rightarrow> int \<Rightarrow> ChangeType \<Rightarrow> unit \<times> MemStorage" where
  "createHistoryEntry s now thoughtId thought userId changeType =
     (let historyEntry = \<lparr> h_id = currentHistoryId s,
                            h_thoughtId = thoughtId,
                            h_title = Some (t_title thought),
                            h_content = Some (t_content thought),
                            h_category = Some (t_category thought),
                            h_department = t_department thought,
                            h_editedBy = userId,
                            h_editedAt = Some now,
                            h_changeType = changeType \<rparr>
      in ((), s\<lparr> currentHistoryId := currentHistoryId s + 1,
                  thoughtHistory := Map_set (h_id historyEntry) historyEntry (thoughtHistory s) \<rparr>))"

text \<open>\<open>createThought\<close>, \<open>updateThought\<close> and \<open>deleteThought\<close> read the clock twice: \<open>now\<close>
  for the thought, \<open>now'\<close> inside \<open>createHistoryEntry\<close>.\<close>

definition createThought ::
  "MemStorage \<Rightarrow> int \<Rightarrow> int \<Rightarrow> InsertThought \<Rightarrow> int \<Rightarrow> Thought \<times> MemStorage" where
  "createThought s now now' insertThought userId =
     (let thought = \<lparr> t_id = currentThoughtId s,
                       t_title = it_title insertThought,
                       t_content = it_content insertThought,
                       t_category = (case or_string (it_category insertThought) None of
                                       None \<Rightarrow> ''General'' | Some c \<Rightarrow> c),
                       t_department = or_string (it_department insertThought) None,
                       t_authorId = it_authorId insertThought,
                       t_clinicId = it_clinicId insertThought,
                       t_isDeleted = Some False,
                       t_deletedAt = None,
                       t_deletedBy = None,
                       t_editCount = Some 0,
                       t_lastEditedAt = None,
                       t_lastEditedBy = None,
                       t_isRead = Some False,
                       t_readAt = None,
                       t_createdAt = Some now \<rparr>;
          s1 = s\<lparr> currentThoughtId := currentThoughtId s + 1,
                  thoughts := Map_set (t_id thought) thought (thoughts s) \<rparr>;
          s2 = snd (createHistoryEntry s1 now' (t_id thought) thought userId Created)
      in (thought, s2))"

text \<open>\<open>{...thought, ...updates}\<close>.\<close>

definition spread_updates :: "Thought \<Rightarrow> ThoughtUpdates \<Rightarrow> Thought" where
  "spread_updates thought updates =
     thought\<lparr> t_title := (case pt_title updates of None \<Rightarrow> t_title thought | Some v \<Rightarrow> v),
              t_content := (case pt_content updates of None \<Rightarrow> t_content thought | Some v \<Rightarrow> v),
              t_category := (case pt_category updates of None \<Rightarrow> t_category thought | Some v \<Rightarrow> v),
              t_department := (case pt_department updates of None \<Rightarrow> t_department thought | Some v \<Rightarrow> v),
              t_authorId := (case pt_authorId updates of None \<Rightarrow> t_authorId thought | Some v \<Rightarrow> v),
              t_clinicId := (case pt_clinicId updates of None \<Rightarrow> t_clinicId thought | Some v \<Rightarrow> v),
              t_isRead := (case pt_isRead updates of None \<Rightarrow> t_isRead thought | Some v \<Rightarrow> v),
              t_readAt := (case pt_readAt updates of None \<Rightarrow> t_readAt thought | Some v \<Rightarrow> v) \<rparr>"

definition updateThought ::
  "MemStorage \<Rightarrow> int \<Rightarrow> int \<Rightarrow> int \<Rightarrow> ThoughtUpdates \<Rightarrow> int \<Rightarrow> Thought option \<times> MemStorage" where
  "updateThought s now now' id' updates userId =
     (case Map_get (thoughts s) id' of
        None \<Rightarrow> (None, s)
      | Some thought \<Rightarrow>
          let updatedThought =
                (spread_updates thought updates)
                  \<lparr> t_editCount := Some ((case t_editCount thought of None \<Rightarrow> 0 | Some n \<Rightarrow> n) + 1),
                    t_lastEditedAt := Some now,
                    t_lastEditedBy := Some userId \<rparr>;
              s1 = s\<lparr> thoughts := Map_set id' updatedThought (thoughts s) \<rparr>;
              s2 = snd (createHistoryEntry s1 now' id' updatedThought userId Edited)
          in (Some updatedThought, s2))"

definition deleteThought :: "MemStorage \<Rightarrow> int \<Rightarrow> int \<Rightarrow> int \<Rightarrow> int \<Rightarrow> bool \<times> MemStorage" where
  "deleteThought s now now' id' userId =
     (case Map_get (thoughts s) id' of
        None \<Rightarrow> (False, s)
      | Some thought \<Rightarrow>
          let deletedThought = thought\<lparr> t_isDeleted := Some True,
                                        t_deletedAt := Some now,
                                        t_deletedBy := Some userId \<rparr>;
              s1 = s\<lparr> thoughts := Map_set id' deletedThought (thoughts s) \<rparr>;
              s2 = snd (createHistoryEntry s1 now' id' deletedThought userId Deleted)
          in (True, s2))"

definition markThoughtAsRead :: "MemStorage \<Rightarrow> int \<Rightarrow> int \<Rightarrow> bool \<times> MemStorage" where
  "markThoughtAsRead s now thoughtId =
     (case Map_get (thoughts s) thoughtId of
        None \<Rightarrow> (False, s)
      | Some thought \<Rightarrow>
          let updatedThought = thought\<lparr> t_isRead := Some True, t_readAt := Some now \<rparr>
          in (True, s\<lparr> thoughts := Map_set thoughtId updatedThought (thoughts s) \<rparr>))"

subsection \<open>Queries\<close>

record Filters =
  f_startDate :: "string option"
  f_endDate :: "string option"
  f_userId :: "int option"
  f_department :: "string option"
  f_includeRead :: "bool option"

text \<open>Truthiness of an optional string and of an optional number.\<close>

definition truthy_string :: "string option \<Rightarrow> bool" where
  "truthy_string x = (case x of None \<Rightarrow> False | Some s \<Rightarrow> s \<noteq> [])"

definition truthy_number :: "int option \<Rightarrow> bool" where
  "truthy_number x = (case x of None \<Rightarrow> False | Some n \<Rightarrow> n \<noteq> 0)"

definition applyFilters :: "int \<Rightarrow> Filters \<Rightarrow> Thought list \<Rightarrow> Thought list" where
  "applyFilters tz filters thoughtsArray =
     (let a1 = (if truthy_string (f_startDate filters)
                then (let startDate = Date_parse (the (f_startDate filters))
                      in filter (\<lambda>thought. Date_ge (Date_or_0 (t_createdAt thought)) startDate) thoughtsArray)
                else thoughtsArray);
          a2 = (if truthy_string (f_endDate filters)
                then (let endDate = setHours_23_59_59_999 tz (Date_parse (the (f_endDate filters)))
                      in filter (\<lambda>thought. Date_le (Date_or_0 (t_createdAt thought)) endDate) a1)
                else a1);
          a3 = (if truthy_number (f_userId filters)
                then filter (\<lambda>thought. Some (t_authorId thought) = f_userId filters) a2
                else a2);
          a4 = (if truthy_string (f_department filters)
                then filter (\<lambda>thought. t_department thought = f_department filters) a3
                else a3);
          a5 = (if f_includeRead filters = Some False
                then filter (\<lambda>thought. t_isRead thought \<noteq> Some True) a4
                else a4)
      in a5)"

text \<open>The loop that joins each thought with its author; a thought whose author is not
  in the user table is skipped.\<close>

definition lookupUser :: "MemStorage \<Rightarrow> int option \<Rightarrow> User option" where
  "lookupUser s x = (if truthy_number x then Map_get (users s) (the x) else None)"

fun withAuthors :: "MemStorage \<Rightarrow> Thought list \<Rightarrow> ThoughtWithAuthor list" where
  "withAuthors s [] = []"
| "withAuthors s (thought # rest) =
     (case Map_get (users s) (t_authorId thought) of
        None \<Rightarrow> withAuthors s rest
      | Some author' \<Rightarrow>
          Thought.extend thought
            (ThoughtWithAuthor.fields author' (lookupUser s (t_deletedBy thought))
               (lookupUser s (t_lastEditedBy thought)))
          # withAuthors s rest)"

definition getThoughtsByClinic ::
  "MemStorage \<Rightarrow> int \<Rightarrow> int \<Rightarrow> bool \<Rightarrow> Filters option \<Rightarrow> ThoughtWithAuthor list \<times> MemStorage" where
  "getThoughtsByClinic s tz clinicId includeDeleted filters =
     (let thoughtsArray0 =
            filter (\<lambda>thought. includeDeleted \<or> t_isDeleted thought \<noteq> Some True)
              (filter (\<lambda>thought. t_clinicId thought = clinicId) (Map_values (thoughts s)));
          thoughtsArray =
            (case filters of None \<Rightarrow> thoughtsArray0 | Some f \<Rightarrow> applyFilters tz f thoughtsArray0);
          thoughtsWithAuthors = withAuthors s thoughtsArray
      in (sort_desc (\<lambda>a. getTime_or_0 (t_createdAt a)) thoughtsWithAuthors, s))"

text \<open>The decimal text of an integer, as a template literal prints a number (below
  \<open>10^21\<close> in absolute value).\<close>

fun digitsOf :: "nat \<Rightarrow> string" where
  "digitsOf n = (if n < 10 then [char_of (48 + n)] else digitsOf (n div 10) @ [char_of (48 + n mod 10)])"

definition numberToString :: "int \<Rightarrow> string" where
  "numberToString n = (if n < 0 then CHR ''-'' # digitsOf (nat (- n)) else digitsOf (nat n))"

definition unknownUser :: "int \<Rightarrow> User" where
  "unknownUser userId =
     \<lparr> u_id = userId,
       u_username = ''Unknown User '' @ numberToString userId,
       u_email = ''unknown@example.com'',
       u_password = [],
       u_role = ''user'',
       u_clinicId = None,
       u_createdAt = None \<rparr>"

definition userOrUnknown :: "MemStorage \<Rightarrow> int \<Rightarrow> User" where
  "userOrUnknown s userId = (case Map_get (users s) userId of None \<Rightarrow> unknownUser userId | Some u \<Rightarrow> u)"

definition getThoughtHistory ::
  "MemStorage \<Rightarrow> int \<Rightarrow> int \<Rightarrow> ThoughtHistoryWithUser list \<times> MemStorage" where
  "getThoughtHistory s now thoughtId =
     (let historyEntries =
            sort_desc (\<lambda>entry. getTime_or_0 (h_editedAt entry))
              (filter (\<lambda>entry. h_thoughtId entry = thoughtId) (Map_values (thoughtHistory s)));
          result =
            map (\<lambda>entry. ThoughtHistory.extend entry
                            (ThoughtHistoryWithUser.fields (userOrUnknown s (h_editedBy entry))))
              historyEntries
      in if length result = 0 then
           (case Map_get (thoughts s) thoughtId of
              None \<Rightarrow> (result, s)
            | Some currentThought \<Rightarrow>
                (result @
                   [\<lparr> h_id = now,
                      h_thoughtId = thoughtId,
                      h_title = Some (t_title currentThought),
                      h_content = Some (t_content currentThought),
                      h_category = Some (t_category currentThought),
                      h_department = t_department currentThought,
                      h_editedBy = t_authorId currentThought,
                      h_editedAt = t_createdAt currentThought,
                      h_changeType = Created,
                      editedByUser = userOrUnknown s (t_authorId currentThought) \<rparr>],
                 s))
         else (result, s))"

subsection \<open>Users\<close>

text \<open>\<open>InsertUser\<close>: the user columns without \<open>id\<close> and \<open>createdAt\<close>.\<close>

record InsertUser =
  iu_username :: string
  iu_email :: string
  iu_password :: string
  iu_role :: "string option"
  iu_clinicId :: "int option"

definition createUser :: "MemStorage \<Rightarrow> int \<Rightarrow> InsertUser \<Rightarrow> User \<times> MemStorage" where
  "createUser s now insertUser =
     (let user = \<lparr> u_id = currentUserId s,
                    u_username = iu_username insertUser,
                    u_email = iu_email insertUser,
                    u_password = iu_password insertUser,
                    u_role = (case or_string (iu_role insertUser) None of
                                None \<Rightarrow> ''user'' | Some r \<Rightarrow> r),
                    u_clinicId = (case iu_clinicId insertUser of
                                    None \<Rightarrow> None | Some c \<Rightarrow> if c = 0 then None else Some c),
                    u_createdAt = Some now \<rparr>
      in (user, s\<lparr> currentUserId := currentUserId s + 1,
                    users := Map_set (u_id user) user (users s) \<rparr>))"

subsection \<open>Sequences of calls\<close>

datatype DepartmentCall =
    AddDepartment int string
  | UpdateDepartment int string string
  | RemoveDepartment int string

fun callDepartment :: "DepartmentCall \<Rightarrow> MemStorage \<Rightarrow> MemStorage" where
  "callDepartment (AddDepartment clinicId d) s = snd (addDepartmentToClinic s clinicId d)"
| "callDepartment (UpdateDepartment clinicId old new) s = snd (updateDepartmentInClinic s clinicId old new)"
| "callDepartment (RemoveDepartment clinicId d) s = snd (removeDepartmentFromClinic s clinicId d)"

definition callDepartments :: "DepartmentCall list \<Rightarrow> MemStorage \<Rightarrow> MemStorage" where
  "callDepartments calls s = fold callDepartment calls s"

text \<open>The department list of a clinic, when the clinic exists and the list is not null.\<close>

definition departmentsOf :: "MemStorage \<Rightarrow> int \<Rightarrow> string list option" where
  "departmentsOf s clinicId =
     (case Map_get (clinics s) clinicId of None \<Rightarrow> None | Some clinic \<Rightarrow> c_departments clinic)"

definition hasDepartment :: "MemStorage \<Rightarrow> int \<Rightarrow> bool" where
  "hasDepartment s clinicId =
     (case departmentsOf s clinicId of None \<Rightarrow> False | Some ds \<Rightarrow> 1 \<le> length ds)"

text \<open>The calls of the thought life cycle, each with its clock readings.\<close>

datatype ThoughtCall =
    CreateThought int int InsertThought int
  | UpdateThought int int int ThoughtUpdates int
  | DeleteThought int int int int
  | MarkThoughtAsRead int int

fun callThought :: "ThoughtCall \<Rightarrow> MemStorage \<Rightarrow> MemStorage" where
  "callThought (CreateThought now now' insertThought userId) s =
     snd (createThought s now now' insertThought userId)"
| "callThought (UpdateThought now now' id' updates userId) s =
     snd (updateThought s now now' id' updates userId)"
| "callThought (DeleteThought now now' id' userId) s = snd (deleteThought s now now' id' userId)"
| "callThought (MarkThoughtAsRead now thoughtId) s = snd (markThoughtAsRead s now thoughtId)"

definition callThoughts :: "ThoughtCall list \<Rightarrow> MemStorage \<Rightarrow> MemStorage" where
  "callThoughts calls s = fold callThought calls s"

text \<open>The history entries stored for a thought, in insertion order, and the number of
  them that record an edit.\<close>

definition storedHistory :: "MemStorage \<Rightarrow> int \<Rightarrow> ThoughtHistory list" where
  "storedHistory s thoughtId =
     filter (\<lambda>entry. h_thoughtId entry = thoughtId) (Map_values (thoughtHistory s))"


subsection \<open>Predicates of the properties\<close>

text \<open>What a cascade does to one thought.\<close>

definition reassign :: "int \<Rightarrow> string \<Rightarrow> string \<Rightarrow> Thought \<Rightarrow> Thought" where
  "reassign clinicId old new thought =
     (if t_clinicId thought = clinicId \<and> t_department thought = Some old
      then thought\<lparr> t_department := Some new \<rparr> else thought)"


text \<open>The thoughts that the code keeps for the January listing of a clinic when local
  time is \<open>tz\<close> milliseconds ahead of UTC: those of the clinic that are not deleted,
  whose author is in the user table, and whose creation time lies between 1 January
  2024, 00:00:00.000 UTC and 31 January 2024, 23:59:59.999 local time; without the read
  ones when \<open>includeRead\<close> is false.\<close>

definition inJanuary :: "MemStorage \<Rightarrow> int \<Rightarrow> int \<Rightarrow> bool option \<Rightarrow> Thought \<Rightarrow> bool" where
  "inJanuary s tz clinicId includeRead thought =
     (t_clinicId thought = clinicId \<and> t_isDeleted thought \<noteq> Some True \<and>
      Map_get (users s) (t_authorId thought) \<noteq> None \<and>
      1704067200000 \<le> getTime_or_0 (t_createdAt thought) \<and>
      getTime_or_0 (t_createdAt thought) \<le> 1706745599999 - tz \<and>
      \<not> (includeRead = Some False \<and> t_isRead thought = Some True))"

subsection \<open>Example states\<close>

definition clinicNorth :: InsertClinic where
  "clinicNorth = \<lparr> ic_name = ''North'', ic_url = None, ic_logoUrl = None, ic_departments = None \<rparr>"

definition clinicEmpty :: InsertClinic where
  "clinicEmpty = \<lparr> ic_name = ''Empty'', ic_url = None, ic_logoUrl = None, ic_departments = Some [] \<rparr>"

definition storageNorth :: MemStorage where
  "storageNorth = snd (createClinic MemStorage_new 1000 clinicNorth)"

definition storageEmpty :: MemStorage where
  "storageEmpty = snd (createClinic MemStorage_new 1000 clinicEmpty)"

definition callsNorth :: "DepartmentCall list" where
  "callsNorth =
     [RemoveDepartment 1 ''General'', AddDepartment 1 '' Cardiology '',
      UpdateDepartment 1 ''cardiology'' ''Heart'', RemoveDepartment 1 ''GENERAL'',
      RemoveDepartment 1 ''heart'']"

definition thoughtNote :: InsertThought where
  "thoughtNote = \<lparr> it_title = ''Note'', it_content = ''Text'', it_category = None,
                    it_department = Some ''General'', it_authorId = 7, it_clinicId = 1,
                    it_isRead = None, it_readAt = None \<rparr>"

definition storageRead :: MemStorage where
  "storageRead =
     callThoughts [CreateThought 2000 2001 thoughtNote 7, MarkThoughtAsRead 5000 1] MemStorage_new"

definition thoughtRead :: Thought where
  "thoughtRead =
     \<lparr> t_id = 1, t_title = ''Note'', t_content = ''Text'', t_category = ''General'',
       t_department = Some ''General'', t_authorId = 7, t_clinicId = 1,
       t_isDeleted = Some False, t_deletedAt = None, t_deletedBy = None,
       t_editCount = Some 0, t_lastEditedAt = None, t_lastEditedBy = None,
       t_isRead = Some True, t_readAt = Some 5000, t_createdAt = Some 2000 \<rparr>"

text \<open>A store whose only thought came without history, and one whose thought was
  created, edited and deleted.\<close>

definition storageImported :: MemStorage where
  "storageImported = MemStorage_new\<lparr> thoughts := [(1, thoughtRead)], currentThoughtId := 2 \<rparr>"

definition retitle :: ThoughtUpdates where
  "retitle = \<lparr> pt_title = Some ''Note 2'', pt_content = None, pt_category = None,
                pt_department = None, pt_authorId = None, pt_clinicId = None,
                pt_isRead = None, pt_readAt = None \<rparr>"

definition callsEdited :: "ThoughtCall list" where
  "callsEdited =
     [CreateThought 2000 2001 thoughtNote 7, UpdateThought 3000 3001 1 retitle 8,
      MarkThoughtAsRead 3500 1, UpdateThought 3600 3601 1 retitle 8, DeleteThought 4000 4001 1 8]"

definition storageEdited :: MemStorage where
  "storageEdited = callThoughts callsEdited MemStorage_new"

text \<open>Two clinics that both have a department \<open>Cardiology\<close>, with one thought each in that
  department and a third thought in the second department of clinic 1.\<close>

definition clinicHeart :: InsertClinic where
  "clinicHeart = \<lparr> ic_name = ''North'', ic_url = None, ic_logoUrl = None,
                    ic_departments = Some [''Cardiology'', ''General''] \<rparr>"

definition clinicSouth :: InsertClinic where
  "clinicSouth = \<lparr> ic_name = ''South'', ic_url = None, ic_logoUrl = None,
                    ic_departments = Some [''Cardiology''] \<rparr>"

definition thoughtIn :: "int \<Rightarrow> string \<Rightarrow> InsertThought" where
  "thoughtIn clinicId department =
     \<lparr> it_title = ''Note'', it_content = ''Text'', it_category = None,
       it_department = Some department, it_authorId = 7, it_clinicId = clinicId,
       it_isRead = None, it_readAt = None \<rparr>"

definition storageTwoClinics :: MemStorage where
  "storageTwoClinics =
     callThoughts
       [CreateThought 2000 2001 (thoughtIn 1 ''Cardiology'') 7,
        CreateThought 2002 2003 (thoughtIn 2 ''Cardiology'') 7,
        CreateThought 2004 2005 (thoughtIn 1 ''General'') 7]
       (snd (createClinic (snd (createClinic MemStorage_new 1000 clinicHeart)) 1001 clinicSouth))"

text \<open>A clinic whose second department has the empty name, with one thought in the
  first department.\<close>

definition clinicBlank :: InsertClinic where
  "clinicBlank = \<lparr> ic_name = ''Blank'', ic_url = None, ic_logoUrl = None,
                    ic_departments = Some [''Cardiology'', []] \<rparr>"

definition storageBlank :: MemStorage where
  "storageBlank =
     callThoughts [CreateThought 2000 2001 (thoughtIn 1 ''Cardiology'') 7]
       (snd (createClinic MemStorage_new 1000 clinicBlank))"

text \<open>A user, the January filter of the thought listing, and two stores to list: one
  whose only thought, created on 15 January 2024 at 00:00 UTC, has an author who is not
  in the user table; and one in which user 1 wrote five thoughts, created on
  31 December 2023 at 23:59:59.999 UTC, on 1 January 2024 at 00:00 UTC, on 31 January at
  17:00 UTC (read afterwards), on 31 January at 23:30 UTC and on 1 February at 00:00 UTC.\<close>

definition userAnn :: InsertUser where
  "userAnn = \<lparr> iu_username = ''ann'', iu_email = ''ann@example.com'', iu_password = ''secret'',
                iu_role = None, iu_clinicId = Some 1 \<rparr>"

definition filtersJanuary :: Filters where
  "filtersJanuary = \<lparr> f_startDate = Some ''2024-01-01'', f_endDate = Some ''2024-01-31'',
                       f_userId = None, f_department = None, f_includeRead = None \<rparr>"

definition thoughtBy :: "int \<Rightarrow> InsertThought" where
  "thoughtBy authorId =
     \<lparr> it_title = ''Note'', it_content = ''Text'', it_category = None,
       it_department = None, it_authorId = authorId, it_clinicId = 1,
       it_isRead = None, it_readAt = None \<rparr>"

definition storageOrphan :: MemStorage where
  "storageOrphan =
     callThoughts [CreateThought 1705276800000 1705276800001 (thoughtBy 7) 7] MemStorage_new"

definition storageJanuary :: MemStorage where
  "storageJanuary =
     callThoughts
       [CreateThought 1704067199999 1704067199999 (thoughtBy 1) 1,
        CreateThought 1704067200000 1704067200000 (thoughtBy 1) 1,
        CreateThought 1706720400000 1706720400000 (thoughtBy 1) 1,
        CreateThought 1706743800000 1706743800000 (thoughtBy 1) 1,
        CreateThought 1706745600000 1706745600000 (thoughtBy 1) 1,
        MarkThoughtAsRead 1706745600001 3]
       (snd (createUser MemStorage_new 1000 userAnn))"

section \<open>Properties\<close>

subsection \<open>Maps and arrays\<close>

lemma Map_get_set: "Map_get (Map_set k v m) k' = (if k' = k then Some v else Map_get m k')"
  by (induction m) (auto simp: Map_get_def)

lemma Map_set_same: "Map_get m k = Some v \<Longrightarrow> Map_set k v m = m"
  by (induction m) (auto simp: Map_get_def split: if_splits)

lemma keys_Map_set: "fst ` set (Map_set k v m) = insert k (fst ` set m)"
  by (induction m) auto

lemma Map_ok_set: "Map_ok m \<Longrightarrow> Map_ok (Map_set k v m)"
  by (induction m) (auto simp: Map_ok_def keys_Map_set)

lemma filter_enumerate_neq:
  "i < length xs \<Longrightarrow>
   map snd (filter (\<lambda>(j, x). j \<noteq> n + i) (enumerate n xs)) = take i xs @ drop (Suc i) xs"
proof (induction xs arbitrary: i n)
  case Nil
  then show ?case by simp
next
  case (Cons x xs)
  show ?case
  proof (cases i)
    case 0
    have "filter (\<lambda>(j, x). j \<noteq> n) (enumerate (Suc n) xs) = enumerate (Suc n) xs"
      by (rule filter_True) (auto simp: in_set_enumerate_eq)
    with 0 show ?thesis by simp
  next
    case (Suc k)
    with Cons.prems have "k < length xs" by simp
    from Cons.IH[OF this, of "Suc n"] Suc show ?thesis by simp
  qed
qed

lemma filter_indexed_neq:
  "i < length xs \<Longrightarrow> filter_indexed (\<lambda>_ j. j \<noteq> i) xs = take i xs @ drop (Suc i) xs"
  using filter_enumerate_neq[of i xs 0] by (simp add: filter_indexed_def)

lemma findIndex_Some:
  "findIndex P xs = Some i \<Longrightarrow> i < length xs \<and> P (xs ! i) \<and> (\<forall>j<i. \<not> P (xs ! j))"
proof (induction xs arbitrary: i)
  case Nil
  then show ?case by simp
next
  case (Cons x xs)
  then show ?case
    by (auto split: if_splits nat.splits simp: nth_Cons)
qed

subsection \<open>The department list under add, update and remove\<close>

lemma hasDepartment_add:
  "hasDepartment s k \<Longrightarrow> hasDepartment (snd (addDepartmentToClinic s clinicId d)) k"
  by (auto simp: hasDepartment_def departmentsOf_def addDepartmentToClinic_def Let_def
        Map_get_set or_array_def split: option.splits)

lemma hasDepartment_update:
  "hasDepartment s k \<Longrightarrow> hasDepartment (snd (updateDepartmentInClinic s clinicId old new)) k"
  by (auto simp: hasDepartment_def departmentsOf_def updateDepartmentInClinic_def Let_def
        Map_get_set or_array_def split: option.splits)

lemma hasDepartment_remove:
  "hasDepartment s k \<Longrightarrow> hasDepartment (snd (removeDepartmentFromClinic s clinicId d)) k"
  by (auto simp: hasDepartment_def departmentsOf_def removeDepartmentFromClinic_def Let_def
        Map_get_set or_array_def filter_indexed_neq dest!: findIndex_Some split: option.splits)

lemma hasDepartment_call: "hasDepartment s k \<Longrightarrow> hasDepartment (callDepartment c s) k"
  by (cases c) (simp_all add: hasDepartment_add hasDepartment_update hasDepartment_remove)

lemma hasDepartment_calls: "hasDepartment s k \<Longrightarrow> hasDepartment (callDepartments calls s) k"
  unfolding callDepartments_def
  by (induction calls arbitrary: s) (simp_all add: hasDepartment_call)

lemma remove_last_department:
  "departmentsOf s clinicId = Some ds \<Longrightarrow> length ds = 1 \<Longrightarrow>
   removeDepartmentFromClinic s clinicId d = (False, s)"
  by (auto simp: departmentsOf_def removeDepartmentFromClinic_def Let_def or_array_def
        split: option.splits)

text \<open>
  C1. A clinic whose department list has at least one entry still has at least one entry
  after any finite sequence of \<open>addDepartmentToClinic\<close>, \<open>updateDepartmentInClinic\<close> and
  \<open>removeDepartmentFromClinic\<close> calls (on this clinic or on any other); and when the list
  has exactly one entry, \<open>removeDepartmentFromClinic\<close> returns false and leaves the state
  as it was, whatever name it is given.
\<close>

theorem departments_never_empty:
  "hasDepartment s clinicId \<Longrightarrow>
   hasDepartment (callDepartments calls s) clinicId \<and>
   (\<forall>ds d. departmentsOf s clinicId = Some ds \<and> length ds = 1 \<longrightarrow>
      removeDepartmentFromClinic s clinicId d = (False, s))"
  by (auto simp: hasDepartment_calls remove_last_department)

theorem departments_never_empty_witness:
  "hasDepartment storageNorth 1 \<and>
   hasDepartment (callDepartments callsNorth storageNorth) 1 \<and>
   removeDepartmentFromClinic storageNorth 1 ''General'' = (False, storageNorth)"
proof -
  have h: "hasDepartment storageNorth 1"
    by code_simp
  have d: "departmentsOf storageNorth 1 = Some [''General'']"
    by code_simp
  from departments_never_empty[OF h, of callsNorth] d h show ?thesis
    by simp
qed

subsection \<open>Listing and creating\<close>

text \<open>
  C3 (as amended). \<open>getDepartmentsByClinic\<close> returns the stored department list whenever
  the clinic exists and its list is not null, the empty list included, and the
  single-element list \<open>["General"]\<close> when the clinic is unknown or its list is null. It
  changes nothing, and its result is empty exactly when the stored list is empty.
\<close>

theorem getDepartmentsByClinic_result:
  "fst (getDepartmentsByClinic s clinicId) =
     (case departmentsOf s clinicId of None \<Rightarrow> [''General''] | Some ds \<Rightarrow> ds) \<and>
   snd (getDepartmentsByClinic s clinicId) = s \<and>
   (fst (getDepartmentsByClinic s clinicId) = [] \<longleftrightarrow> departmentsOf s clinicId = Some [])"
  by (auto simp: getDepartmentsByClinic_def departmentsOf_def or_array_def split: option.splits)

text \<open>For the clinic created with an empty array, the listing is empty.\<close>

theorem getDepartmentsByClinic_empty_counterexample:
  "departmentsOf storageEmpty 1 = Some [] \<and> fst (getDepartmentsByClinic storageEmpty 1) = []"
  by code_simp

text \<open>
  C9. \<open>createClinic\<close> with an explicitly empty \<open>departments\<close> array stores the clinic with
  an empty department list, which \<open>getDepartmentsByClinic\<close> then returns as it is; the
  default \<open>["General"]\<close> is stored only when the field is absent or null.
\<close>

theorem createClinic_empty_departments:
  "(let (clinic, s') = createClinic s now (insertClinic\<lparr> ic_departments := Some [] \<rparr>)
    in c_departments clinic = Some [] \<and>
       Map_get (clinics s') (c_id clinic) = Some clinic \<and>
       fst (getDepartmentsByClinic s' (c_id clinic)) = [] \<and>
       \<not> hasDepartment s' (c_id clinic)) \<and>
   (let (clinic, s') = createClinic s now (insertClinic\<lparr> ic_departments := None \<rparr>)
    in c_departments clinic = Some [''General''] \<and>
       Map_get (clinics s') (c_id clinic) = Some clinic \<and>
       hasDepartment s' (c_id clinic))"
  by (simp add: createClinic_def Let_def or_array_def Map_get_set departmentsOf_def
        hasDepartment_def getDepartmentsByClinic_def)

subsection \<open>Marking a thought as read\<close>

text \<open>
  C2 (as amended). \<open>markThoughtAsRead\<close> on a thought that is already read returns true and
  keeps \<open>isRead\<close>, every other field of the thought, every other thought and the rest of
  the store, but it overwrites \<open>readAt\<close> with the time of the call. The state is the one
  before the call when the stored \<open>readAt\<close> already is that time.
\<close>

theorem markThoughtAsRead_already_read:
  assumes "Map_get (thoughts s) thoughtId = Some thought" and "t_isRead thought = Some True"
  shows "markThoughtAsRead s now thoughtId =
           (True, s\<lparr> thoughts := Map_set thoughtId (thought\<lparr> t_readAt := Some now \<rparr>) (thoughts s) \<rparr>) \<and>
         Map_get (thoughts (snd (markThoughtAsRead s now thoughtId))) thoughtId =
           Some (thought\<lparr> t_readAt := Some now \<rparr>) \<and>
         (\<forall>k. k \<noteq> thoughtId \<longrightarrow>
            Map_get (thoughts (snd (markThoughtAsRead s now thoughtId))) k = Map_get (thoughts s) k) \<and>
         (t_readAt thought = Some now \<longrightarrow> snd (markThoughtAsRead s now thoughtId) = s)"
proof -
  have same: "thought\<lparr> t_isRead := Some True, t_readAt := Some now \<rparr> = thought\<lparr> t_readAt := Some now \<rparr>"
    using assms(2) by simp
  have eq: "markThoughtAsRead s now thoughtId =
           (True, s\<lparr> thoughts := Map_set thoughtId (thought\<lparr> t_readAt := Some now \<rparr>) (thoughts s) \<rparr>)"
    using assms(1) same by (simp add: markThoughtAsRead_def Let_def)
  have "t_readAt thought = Some now \<Longrightarrow> thought\<lparr> t_readAt := Some now \<rparr> = thought"
    by simp
  then have "t_readAt thought = Some now \<Longrightarrow>
      Map_set thoughtId (thought\<lparr> t_readAt := Some now \<rparr>) (thoughts s) = thoughts s"
    using assms(1) by (simp add: Map_set_same)
  with eq show ?thesis
    by (simp add: Map_get_set)
qed

text \<open>A thought read at time 5000 and marked again at time 9000 carries the new time.\<close>

theorem markThoughtAsRead_counterexample:
  "map_option t_isRead (Map_get (thoughts storageRead) 1) = Some (Some True) \<and>
   map_option t_readAt (Map_get (thoughts storageRead) 1) = Some (Some 5000) \<and>
   map_option t_readAt (Map_get (thoughts (snd (markThoughtAsRead storageRead 9000 1))) 1)
     = Some (Some 9000) \<and>
   snd (markThoughtAsRead storageRead 9000 1) \<noteq> storageRead"
  by code_simp

theorem markThoughtAsRead_already_read_witness:
  "Map_get (thoughts storageRead) 1 = Some thoughtRead \<and>
   t_isRead thoughtRead = Some True \<and>
   Map_get (thoughts (snd (markThoughtAsRead storageRead 9000 1))) 1
     = Some (thoughtRead\<lparr> t_readAt := Some 9000 \<rparr>)"
proof -
  have g: "Map_get (thoughts storageRead) 1 = Some thoughtRead"
    by code_simp
  have r: "t_isRead thoughtRead = Some True"
    by (simp add: thoughtRead_def)
  show ?thesis
    using g r markThoughtAsRead_already_read[OF g r, of 9000] by blast
qed

subsection \<open>The history of a thought\<close>

lemma truncate_extend: "ThoughtHistory.truncate (ThoughtHistory.extend e m) = e"
  by (simp add: ThoughtHistory.defs)

lemma h_editedAt_extend: "h_editedAt (ThoughtHistory.extend e m) = h_editedAt e"
  by (simp add: ThoughtHistory.defs)

lemma sort_desc_sorted: "sorted_wrt (\<lambda>a b. key b \<le> key a) (sort_desc key xs)"
proof -
  have "sorted (map (\<lambda>x. - key x) (sort_key (\<lambda>x. - key x) xs))"
    by (rule sorted_sort_key)
  then show ?thesis
    by (simp add: sort_desc_def sorted_map)
qed

lemma mset_sort_desc: "mset (sort_desc key xs) = mset xs"
  by (simp add: sort_desc_def)

lemma sort_desc_Nil: "sort_desc key xs = [] \<longleftrightarrow> xs = []"
  by (metis mset_sort_desc mset_zero_iff)

lemma getThoughtHistory_stored:
  assumes "storedHistory s thoughtId \<noteq> []"
  shows "fst (getThoughtHistory s now thoughtId) =
           map (\<lambda>entry. ThoughtHistory.extend entry
                            (ThoughtHistoryWithUser.fields (userOrUnknown s (h_editedBy entry))))
             (sort_desc (\<lambda>entry. getTime_or_0 (h_editedAt entry)) (storedHistory s thoughtId))"
  using assms by (simp add: getThoughtHistory_def storedHistory_def Let_def sort_desc_Nil)

lemma getThoughtHistory_fallback:
  assumes "storedHistory s thoughtId = []" and "Map_get (thoughts s) thoughtId = Some thought"
  shows "fst (getThoughtHistory s now thoughtId) =
           [\<lparr> h_id = now,
              h_thoughtId = thoughtId,
              h_title = Some (t_title thought),
              h_content = Some (t_content thought),
              h_category = Some (t_category thought),
              h_department = t_department thought,
              h_editedBy = t_authorId thought,
              h_editedAt = t_createdAt thought,
              h_changeType = Created,
              editedByUser = userOrUnknown s (t_authorId thought) \<rparr>]"
  using assms by (simp add: getThoughtHistory_def storedHistory_def Let_def sort_desc_Nil)

lemma getThoughtHistory_state: "snd (getThoughtHistory s now thoughtId) = s"
  by (simp add: getThoughtHistory_def Let_def split: option.splits)

text \<open>
  C7. For an existing thought with no stored history entry, \<open>getThoughtHistory\<close> returns
  exactly one entry, of change type \<open>created\<close>, whose title, content, category,
  department, editor and time are the thought's current title, content, category,
  department, author and creation time. For a thought with stored entries it returns
  all of them and nothing else, ordered by \<open>editedAt\<close> descending.
\<close>

theorem getThoughtHistory_entries:
  "(Map_get (thoughts s) thoughtId = Some thought \<and> storedHistory s thoughtId = [] \<longrightarrow>
      (\<exists>e. fst (getThoughtHistory s now thoughtId) = [e] \<and>
           h_changeType e = Created \<and>
           h_thoughtId e = thoughtId \<and>
           h_title e = Some (t_title thought) \<and>
           h_content e = Some (t_content thought) \<and>
           h_category e = Some (t_category thought) \<and>
           h_department e = t_department thought \<and>
           h_editedBy e = t_authorId thought \<and>
           h_editedAt e = t_createdAt thought)) \<and>
   (storedHistory s thoughtId \<noteq> [] \<longrightarrow>
      mset (map ThoughtHistory.truncate (fst (getThoughtHistory s now thoughtId)))
        = mset (storedHistory s thoughtId) \<and>
      sorted_wrt (\<lambda>a b. getTime_or_0 (h_editedAt b) \<le> getTime_or_0 (h_editedAt a))
        (fst (getThoughtHistory s now thoughtId)))"
proof (intro conjI impI)
  assume "Map_get (thoughts s) thoughtId = Some thought \<and> storedHistory s thoughtId = []"
  then show "\<exists>e. fst (getThoughtHistory s now thoughtId) = [e] \<and>
           h_changeType e = Created \<and>
           h_thoughtId e = thoughtId \<and>
           h_title e = Some (t_title thought) \<and>
           h_content e = Some (t_content thought) \<and>
           h_category e = Some (t_category thought) \<and>
           h_department e = t_department thought \<and>
           h_editedBy e = t_authorId thought \<and>
           h_editedAt e = t_createdAt thought"
    by (simp add: getThoughtHistory_fallback)
next
  assume ne: "storedHistory s thoughtId \<noteq> []"
  show "mset (map ThoughtHistory.truncate (fst (getThoughtHistory s now thoughtId)))
        = mset (storedHistory s thoughtId)"
    by (simp add: getThoughtHistory_stored[OF ne] o_def truncate_extend mset_sort_desc)
  have "sorted_wrt (\<lambda>a b. getTime_or_0 (h_editedAt b) \<le> getTime_or_0 (h_editedAt a))
          (sort_desc (\<lambda>entry. getTime_or_0 (h_editedAt entry)) (storedHistory s thoughtId))"
    by (rule sort_desc_sorted)
  then show "sorted_wrt (\<lambda>a b. getTime_or_0 (h_editedAt b) \<le> getTime_or_0 (h_editedAt a))
        (fst (getThoughtHistory s now thoughtId))"
    by (simp add: getThoughtHistory_stored[OF ne] sorted_wrt_map h_editedAt_extend)
qed

theorem getThoughtHistory_entries_witness:
  "Map_get (thoughts storageImported) 1 = Some thoughtRead \<and>
   storedHistory storageImported 1 = [] \<and>
   length (fst (getThoughtHistory storageImported 777 1)) = 1 \<and>
   map h_changeType (fst (getThoughtHistory storageImported 777 1)) = [Created] \<and>
   map h_title (fst (getThoughtHistory storageImported 777 1)) = [Some ''Note''] \<and>
   map h_editedAt (fst (getThoughtHistory storageImported 777 1)) = [Some 2000] \<and>
   map h_id (storedHistory storageEdited 1) = [1, 2, 3, 4] \<and>
   size (mset (map ThoughtHistory.truncate (fst (getThoughtHistory storageEdited 777 1)))) = 4 \<and>
   sorted_wrt (\<lambda>a b. getTime_or_0 (h_editedAt b) \<le> getTime_or_0 (h_editedAt a))
     (fst (getThoughtHistory storageEdited 777 1))"
proof -
  have g: "Map_get (thoughts storageImported) 1 = Some thoughtRead"
    by code_simp
  have e: "storedHistory storageImported 1 = []"
    by code_simp
  have t: "t_title thoughtRead = ''Note''" "t_createdAt thoughtRead = Some 2000"
    by (simp_all add: thoughtRead_def)
  have h: "map h_id (storedHistory storageEdited 1) = [1, 2, 3, 4]"
    by code_simp
  then have ne: "storedHistory storageEdited 1 \<noteq> []"
    by auto
  have four: "size (mset (storedHistory storageEdited 1)) = 4"
    using arg_cong[OF h, of length] by simp
  from getThoughtHistory_entries[of storageImported 1 thoughtRead 777] g e t
  have first: "length (fst (getThoughtHistory storageImported 777 1)) = 1 \<and>
     map h_changeType (fst (getThoughtHistory storageImported 777 1)) = [Created] \<and>
     map h_title (fst (getThoughtHistory storageImported 777 1)) = [Some ''Note''] \<and>
     map h_editedAt (fst (getThoughtHistory storageImported 777 1)) = [Some 2000]"
    by auto
  from getThoughtHistory_entries[of storageEdited 1 thoughtRead 777] ne four
  have second: "size (mset (map ThoughtHistory.truncate (fst (getThoughtHistory storageEdited 777 1)))) = 4 \<and>
     sorted_wrt (\<lambda>a b. getTime_or_0 (h_editedAt b) \<le> getTime_or_0 (h_editedAt a))
       (fst (getThoughtHistory storageEdited 777 1))"
    by auto
  from g e h first second show ?thesis
    by blast
qed

text \<open>
  C10. \<open>getThoughtHistory\<close> leaves the store as it was. For a thought without stored
  history the synthesized entry exists in the returned list only: the stored history of
  the thought is still empty after the call, the entry's id is the clock reading of the
  call, and a second call builds the entry anew with the id of its own clock reading.
\<close>

theorem getThoughtHistory_reads_only:
  "snd (getThoughtHistory s now thoughtId) = s \<and>
   (\<forall>thought. Map_get (thoughts s) thoughtId = Some thought \<and> storedHistory s thoughtId = [] \<longrightarrow>
      storedHistory (snd (getThoughtHistory s now thoughtId)) thoughtId = [] \<and>
      map h_id (fst (getThoughtHistory s now thoughtId)) = [now] \<and>
      map h_id (fst (getThoughtHistory (snd (getThoughtHistory s now thoughtId)) now' thoughtId))
        = [now'])"
  by (simp add: getThoughtHistory_state getThoughtHistory_fallback)

theorem getThoughtHistory_reads_only_witness:
  "Map_get (thoughts storageImported) 1 = Some thoughtRead \<and>
   storedHistory storageImported 1 = [] \<and>
   snd (getThoughtHistory storageImported 777 1) = storageImported \<and>
   storedHistory (snd (getThoughtHistory storageImported 777 1)) 1 = [] \<and>
   map h_id (fst (getThoughtHistory storageImported 777 1)) = [777] \<and>
   map h_id (fst (getThoughtHistory (snd (getThoughtHistory storageImported 777 1)) 888 1)) = [888]"
proof -
  have g: "Map_get (thoughts storageImported) 1 = Some thoughtRead"
    by code_simp
  have e: "storedHistory storageImported 1 = []"
    by code_simp
  show ?thesis
    using g e getThoughtHistory_reads_only[of storageImported 777 1 888] by blast
qed

subsection \<open>The keys of the thought table stay distinct\<close>

text \<open>The thought table of the empty store has distinct keys, and every modelled call
  keeps them distinct and in their order: \<open>Map_ok\<close> holds of the thought table in every
  state that the calls reach.\<close>

lemma keys_Map_set_present: "k \<in> fst ` set m \<Longrightarrow> map fst (Map_set k v m) = map fst m"
  by (induction m) auto

lemma keys_fold_cascade:
  "fst ` set xs \<subseteq> fst ` set m \<Longrightarrow>
   map fst (fold (cascade_step clinicId old new) xs m) = map fst m"
proof (induction xs arbitrary: m)
  case Nil
  then show ?case by simp
next
  case (Cons e xs)
  have k: "map fst (cascade_step clinicId old new e m) = map fst m"
    using Cons.prems by (cases e) (auto simp: cascade_step_def keys_Map_set_present)
  then have "fst ` set (cascade_step clinicId old new e m) = fst ` set m"
    by (metis list.set_map)
  with Cons.prems have "fst ` set xs \<subseteq> fst ` set (cascade_step clinicId old new e m)"
    by simp
  from Cons.IH[OF this] k show ?case
    by simp
qed

lemma Map_ok_cascade: "Map_ok m \<Longrightarrow> Map_ok (cascade clinicId old new m)"
  by (simp add: Map_ok_def cascade_def Map_entries_def keys_fold_cascade)

lemma Map_ok_callDepartment:
  "Map_ok (thoughts s) \<Longrightarrow> Map_ok (thoughts (callDepartment c s))"
  by (cases c)
     (auto simp: addDepartmentToClinic_def updateDepartmentInClinic_def
        removeDepartmentFromClinic_def Let_def Map_ok_cascade split: option.splits)

lemma Map_ok_callThought:
  "Map_ok (thoughts s) \<Longrightarrow> Map_ok (thoughts (callThought c s))"
  by (cases c)
     (auto simp: createThought_def updateThought_def deleteThought_def markThoughtAsRead_def
        createHistoryEntry_def Let_def Map_ok_set split: option.splits)

lemma Map_ok_new: "Map_ok (thoughts MemStorage_new)"
  by (simp add: Map_ok_def MemStorage_new_def)

lemma Map_ok_callDepartments:
  "Map_ok (thoughts s) \<Longrightarrow> Map_ok (thoughts (callDepartments calls s))"
  unfolding callDepartments_def
  by (induction calls arbitrary: s) (simp_all add: Map_ok_callDepartment)

lemma Map_ok_callThoughts:
  "Map_ok (thoughts s) \<Longrightarrow> Map_ok (thoughts (callThoughts calls s))"
  unfolding callThoughts_def
  by (induction calls arbitrary: s) (simp_all add: Map_ok_callThought)

lemma Map_ok_create:
  "Map_ok (thoughts s) \<Longrightarrow>
   Map_ok (thoughts (snd (createClinic s now insertClinic))) \<and>
   Map_ok (thoughts (snd (createUser s now insertUser)))"
  by (simp add: createClinic_def createUser_def Let_def)

subsection \<open>The cascade of a rename and of a removal\<close>

lemma Map_get_fold_cascade:
  "distinct (map fst xs) \<Longrightarrow>
   Map_get (fold (cascade_step clinicId old new) xs m) k =
     (case map_of xs k of
        None \<Rightarrow> Map_get m k
      | Some t \<Rightarrow> if t_department t = Some old \<and> t_clinicId t = clinicId
                  then Some (t\<lparr> t_department := Some new \<rparr>) else Map_get m k)"
proof (induction xs arbitrary: m)
  case Nil
  then show ?case by simp
next
  case (Cons e xs)
  obtain k0 t0 where e: "e = (k0, t0)"
    by (cases e)
  from Cons.prems e have d: "distinct (map fst xs)" and n: "map_of xs k0 = None"
    by (auto simp: map_of_eq_None_iff)
  show ?case
    using Cons.IH[OF d, of "cascade_step clinicId old new e m"] n e
    by (auto simp: cascade_step_def Map_get_set split: option.splits)
qed

lemma Map_get_cascade:
  "Map_ok m \<Longrightarrow>
   Map_get (cascade clinicId old new m) k = map_option (reassign clinicId old new) (Map_get m k)"
  unfolding cascade_def Map_entries_def Map_ok_def
  by (simp add: Map_get_fold_cascade) (auto simp: Map_get_def reassign_def split: option.splits)

lemma updateDepartmentInClinic_True:
  assumes "updateDepartmentInClinic s clinicId oldDepartment newDepartment = (True, s')"
  shows "\<exists>clinic ds i.
           Map_get (clinics s) clinicId = Some clinic \<and> c_departments clinic = Some ds \<and>
           findIndex (\<lambda>d. toLowerCase d = toLowerCase (trim oldDepartment)) ds = Some i \<and>
           s' = s\<lparr> thoughts := cascade clinicId (ds ! i) (trim newDepartment) (thoughts s),
                   clinics := Map_set clinicId
                                (clinic\<lparr> c_departments := Some (ds[i := trim newDepartment]) \<rparr>)
                                (clinics s) \<rparr>"
  using assms
  by (auto simp: updateDepartmentInClinic_def Let_def or_array_def split: option.splits if_splits)

lemma removeDepartmentFromClinic_True:
  assumes "removeDepartmentFromClinic s clinicId department = (True, s')"
  shows "\<exists>clinic ds i.
           Map_get (clinics s) clinicId = Some clinic \<and> c_departments clinic = Some ds \<and>
           findIndex (\<lambda>d. toLowerCase d = toLowerCase (trim department)) ds = Some i \<and>
           2 \<le> length ds \<and>
           s' = s\<lparr> thoughts := cascade clinicId (ds ! i)
                                 (first_or_General (take i ds @ drop (Suc i) ds)) (thoughts s),
                   clinics := Map_set clinicId
                                (clinic\<lparr> c_departments := Some (take i ds @ drop (Suc i) ds) \<rparr>)
                                (clinics s) \<rparr>"
  using assms
  by (auto simp: removeDepartmentFromClinic_def Let_def or_array_def filter_indexed_neq
      dest!: findIndex_Some split: option.splits if_splits)

text \<open>
  C4. After a successful \<open>updateDepartmentInClinic\<close>, the name found for \<open>oldName\<close> (the
  first stored name equal to it up to case, at index \<open>i\<close>) is replaced at index \<open>i\<close> by
  the trimmed new name, the rest of the list staying as it was; every thought of that
  clinic whose department was the stored name now has the trimmed new name as its
  department; and every thought of another clinic is unchanged, whatever its department.
\<close>

theorem updateDepartmentInClinic_cascade:
  assumes "Map_ok (thoughts s)"
    and "updateDepartmentInClinic s clinicId oldDepartment newDepartment = (True, s')"
  shows "\<exists>ds i. departmentsOf s clinicId = Some ds \<and>
           findIndex (\<lambda>d. toLowerCase d = toLowerCase (trim oldDepartment)) ds = Some i \<and>
           i < length ds \<and>
           departmentsOf s' clinicId = Some (ds[i := trim newDepartment]) \<and>
           (\<forall>k thought. Map_get (thoughts s) k = Some thought \<and> t_clinicId thought = clinicId \<and>
                         t_department thought = Some (ds ! i) \<longrightarrow>
              Map_get (thoughts s') k = Some (thought\<lparr> t_department := Some (trim newDepartment) \<rparr>)) \<and>
           (\<forall>k thought. Map_get (thoughts s) k = Some thought \<and> t_clinicId thought \<noteq> clinicId \<longrightarrow>
              Map_get (thoughts s') k = Some thought)"
proof -
  from updateDepartmentInClinic_True[OF assms(2)] obtain clinic ds i where
    c: "Map_get (clinics s) clinicId = Some clinic" "c_departments clinic = Some ds"
    and i: "findIndex (\<lambda>d. toLowerCase d = toLowerCase (trim oldDepartment)) ds = Some i"
    and s': "s' = s\<lparr> thoughts := cascade clinicId (ds ! i) (trim newDepartment) (thoughts s),
                   clinics := Map_set clinicId
                                (clinic\<lparr> c_departments := Some (ds[i := trim newDepartment]) \<rparr>)
                                (clinics s) \<rparr>"
    by blast
  have g: "\<And>k. Map_get (thoughts s') k =
                  map_option (reassign clinicId (ds ! i) (trim newDepartment)) (Map_get (thoughts s) k)"
    by (simp add: s' Map_get_cascade[OF assms(1)])
  have "departmentsOf s clinicId = Some ds"
    using c by (simp add: departmentsOf_def)
  moreover have "departmentsOf s' clinicId = Some (ds[i := trim newDepartment])"
    by (simp add: s' departmentsOf_def Map_get_set)
  moreover have "i < length ds"
    using findIndex_Some[OF i] by simp
  ultimately show ?thesis
    using i g by (intro exI[of _ ds] exI[of _ i]) (simp add: reassign_def)
qed

theorem updateDepartmentInClinic_cascade_witness:
  "Map_ok (thoughts storageTwoClinics) \<and>
   fst (updateDepartmentInClinic storageTwoClinics 1 ''cardiology '' '' Heart'') = True \<and>
   departmentsOf (snd (updateDepartmentInClinic storageTwoClinics 1 ''cardiology '' '' Heart'')) 1
     = Some [''Heart'', ''General''] \<and>
   map_option t_department
     (Map_get (thoughts (snd (updateDepartmentInClinic storageTwoClinics 1 ''cardiology '' '' Heart''))) 1)
     = Some (Some ''Heart'') \<and>
   map_option t_department
     (Map_get (thoughts (snd (updateDepartmentInClinic storageTwoClinics 1 ''cardiology '' '' Heart''))) 2)
     = Some (Some ''Cardiology'')"
proof -
  define s' where "s' = snd (updateDepartmentInClinic storageTwoClinics 1 ''cardiology '' '' Heart'')"
  have ok: "Map_ok (thoughts storageTwoClinics)"
    unfolding Map_ok_def by code_simp
  have t: "fst (updateDepartmentInClinic storageTwoClinics 1 ''cardiology '' '' Heart'') = True"
    by code_simp
  then have u: "updateDepartmentInClinic storageTwoClinics 1 ''cardiology '' '' Heart'' = (True, s')"
    unfolding s'_def by (metis prod.collapse)
  have d: "departmentsOf storageTwoClinics 1 = Some [''Cardiology'', ''General'']"
    by code_simp
  have f: "findIndex (\<lambda>d. toLowerCase d = toLowerCase (trim ''cardiology ''))
             [''Cardiology'', ''General''] = Some 0"
    by code_simp
  have n: "trim '' Heart'' = ''Heart''"
    by code_simp
  have t1: "map_option t_clinicId (Map_get (thoughts storageTwoClinics) 1) = Some 1"
       "map_option t_department (Map_get (thoughts storageTwoClinics) 1) = Some (Some ''Cardiology'')"
       "map_option t_clinicId (Map_get (thoughts storageTwoClinics) 2) = Some 2"
       "map_option t_department (Map_get (thoughts storageTwoClinics) 2) = Some (Some ''Cardiology'')"
    by code_simp+
  from updateDepartmentInClinic_cascade[OF ok u] obtain ds i where
    r: "departmentsOf storageTwoClinics 1 = Some ds"
       "findIndex (\<lambda>d. toLowerCase d = toLowerCase (trim ''cardiology '')) ds = Some i"
       "departmentsOf s' 1 = Some (ds[i := trim '' Heart''])"
       "\<forall>k thought. Map_get (thoughts storageTwoClinics) k = Some thought \<and> t_clinicId thought = 1 \<and>
                         t_department thought = Some (ds ! i) \<longrightarrow>
              Map_get (thoughts s') k = Some (thought\<lparr> t_department := Some (trim '' Heart'') \<rparr>)"
       "\<forall>k thought. Map_get (thoughts storageTwoClinics) k = Some thought \<and> t_clinicId thought \<noteq> 1 \<longrightarrow>
              Map_get (thoughts s') k = Some thought"
    by blast
  from r(1) d have ds: "ds = [''Cardiology'', ''General'']"
    by simp
  with r(2) f have i: "i = 0"
    by simp
  have a: "departmentsOf s' 1 = Some [''Heart'', ''General'']"
    using r(3) ds i n by simp
  obtain th1 where th1: "Map_get (thoughts storageTwoClinics) 1 = Some th1"
    using t1(1) by (cases "Map_get (thoughts storageTwoClinics) 1") auto
  obtain th2 where th2: "Map_get (thoughts storageTwoClinics) 2 = Some th2"
    using t1(3) by (cases "Map_get (thoughts storageTwoClinics) 2") auto
  have b: "map_option t_department (Map_get (thoughts s') 1) = Some (Some ''Heart'')"
    using r(4)[rule_format, of 1 th1] th1 t1(1,2) ds i n by simp
  have c: "map_option t_department (Map_get (thoughts s') 2) = Some (Some ''Cardiology'')"
    using r(5)[rule_format, of 2 th2] th2 t1(3,4) by simp
  from ok t a b c show ?thesis
    unfolding s'_def by blast
qed

text \<open>
  C5 (as amended). A successful \<open>removeDepartmentFromClinic\<close> takes the found name out of
  the list and gives every thought of that clinic whose department was that name the
  first name of the updated list when that name is not the empty string, and
  \<open>General\<close> when it is; every other thought is unchanged. When the clinic has only one
  department the call returns false and the whole state, department list and thoughts
  included, is unchanged.
\<close>

theorem removeDepartmentFromClinic_cascade:
  assumes "Map_ok (thoughts s)"
  shows "(\<forall>s'. removeDepartmentFromClinic s clinicId department = (True, s') \<longrightarrow>
            (\<exists>ds i rest. departmentsOf s clinicId = Some ds \<and>
               findIndex (\<lambda>d. toLowerCase d = toLowerCase (trim department)) ds = Some i \<and>
               rest = take i ds @ drop (Suc i) ds \<and> rest \<noteq> [] \<and>
               departmentsOf s' clinicId = Some rest \<and>
               (\<forall>k. Map_get (thoughts s') k =
                      map_option
                        (reassign clinicId (ds ! i) (if hd rest = [] then ''General'' else hd rest))
                        (Map_get (thoughts s) k)))) \<and>
         (\<forall>ds. departmentsOf s clinicId = Some ds \<and> length ds = 1 \<longrightarrow>
            removeDepartmentFromClinic s clinicId department = (False, s))"
proof (intro conjI allI impI)
  fix s'
  assume "removeDepartmentFromClinic s clinicId department = (True, s')"
  from removeDepartmentFromClinic_True[OF this] obtain clinic ds i where
    c: "Map_get (clinics s) clinicId = Some clinic" "c_departments clinic = Some ds"
    and i: "findIndex (\<lambda>d. toLowerCase d = toLowerCase (trim department)) ds = Some i"
    and l: "2 \<le> length ds"
    and s': "s' = s\<lparr> thoughts := cascade clinicId (ds ! i)
                                 (first_or_General (take i ds @ drop (Suc i) ds)) (thoughts s),
                   clinics := Map_set clinicId
                                (clinic\<lparr> c_departments := Some (take i ds @ drop (Suc i) ds) \<rparr>)
                                (clinics s) \<rparr>"
    by blast
  define rest where "rest = take i ds @ drop (Suc i) ds"
  have "i < length ds"
    using findIndex_Some[OF i] by simp
  with l have "length rest = length ds - 1"
    by (simp add: rest_def)
  with l have ne: "rest \<noteq> []"
    by auto
  then have fg: "first_or_General rest = (if hd rest = [] then ''General'' else hd rest)"
    by (cases rest) (simp_all add: first_or_General_def)
  have "departmentsOf s clinicId = Some ds"
    using c by (simp add: departmentsOf_def)
  moreover have "departmentsOf s' clinicId = Some rest"
    by (simp add: s' rest_def departmentsOf_def Map_get_set)
  moreover have "\<forall>k. Map_get (thoughts s') k =
      map_option (reassign clinicId (ds ! i) (if hd rest = [] then ''General'' else hd rest))
        (Map_get (thoughts s) k)"
    using fg by (simp add: s' Map_get_cascade[OF assms] rest_def)
  ultimately show "\<exists>ds i rest. departmentsOf s clinicId = Some ds \<and>
               findIndex (\<lambda>d. toLowerCase d = toLowerCase (trim department)) ds = Some i \<and>
               rest = take i ds @ drop (Suc i) ds \<and> rest \<noteq> [] \<and>
               departmentsOf s' clinicId = Some rest \<and>
               (\<forall>k. Map_get (thoughts s') k =
                      map_option
                        (reassign clinicId (ds ! i) (if hd rest = [] then ''General'' else hd rest))
                        (Map_get (thoughts s) k))"
    using i ne rest_def by blast
next
  fix ds
  assume "departmentsOf s clinicId = Some ds \<and> length ds = 1"
  then show "removeDepartmentFromClinic s clinicId department = (False, s)"
    by (simp add: remove_last_department)
qed

text \<open>Removing \<open>Cardiology\<close> from the list \<open>["Cardiology", ""]\<close> leaves the list \<open>[""]\<close>, and
  the thought that was in \<open>Cardiology\<close> is moved to \<open>General\<close>, which is not in the list.\<close>

theorem removeDepartmentFromClinic_counterexample:
  "fst (removeDepartmentFromClinic storageBlank 1 ''Cardiology'') = True \<and>
   map_option t_department (Map_get (thoughts storageBlank) 1) = Some (Some ''Cardiology'') \<and>
   departmentsOf (snd (removeDepartmentFromClinic storageBlank 1 ''Cardiology'')) 1 = Some [[]] \<and>
   map_option t_department
     (Map_get (thoughts (snd (removeDepartmentFromClinic storageBlank 1 ''Cardiology''))) 1)
     = Some (Some ''General'')"
  by code_simp

theorem removeDepartmentFromClinic_cascade_witness:
  "Map_ok (thoughts storageTwoClinics) \<and>
   fst (removeDepartmentFromClinic storageTwoClinics 1 ''CARDIOLOGY'') = True \<and>
   departmentsOf (snd (removeDepartmentFromClinic storageTwoClinics 1 ''CARDIOLOGY'')) 1
     = Some [''General''] \<and>
   map_option t_department
     (Map_get (thoughts (snd (removeDepartmentFromClinic storageTwoClinics 1 ''CARDIOLOGY''))) 1)
     = Some (Some ''General'') \<and>
   map_option t_department
     (Map_get (thoughts (snd (removeDepartmentFromClinic storageTwoClinics 1 ''CARDIOLOGY''))) 2)
     = Some (Some ''Cardiology'') \<and>
   removeDepartmentFromClinic storageTwoClinics 2 ''Cardiology'' = (False, storageTwoClinics)"
proof -
  define s' where "s' = snd (removeDepartmentFromClinic storageTwoClinics 1 ''CARDIOLOGY'')"
  have ok: "Map_ok (thoughts storageTwoClinics)"
    unfolding Map_ok_def by code_simp
  have t: "fst (removeDepartmentFromClinic storageTwoClinics 1 ''CARDIOLOGY'') = True"
    by code_simp
  then have u: "removeDepartmentFromClinic storageTwoClinics 1 ''CARDIOLOGY'' = (True, s')"
    unfolding s'_def by (metis prod.collapse)
  have d: "departmentsOf storageTwoClinics 1 = Some [''Cardiology'', ''General'']"
    by code_simp
  have d2: "departmentsOf storageTwoClinics 2 = Some [''Cardiology'']"
    by code_simp
  have f: "findIndex (\<lambda>d. toLowerCase d = toLowerCase (trim ''CARDIOLOGY''))
             [''Cardiology'', ''General''] = Some 0"
    by code_simp
  have t1: "map_option t_clinicId (Map_get (thoughts storageTwoClinics) 1) = Some 1"
       "map_option t_department (Map_get (thoughts storageTwoClinics) 1) = Some (Some ''Cardiology'')"
       "map_option t_clinicId (Map_get (thoughts storageTwoClinics) 2) = Some 2"
       "map_option t_department (Map_get (thoughts storageTwoClinics) 2) = Some (Some ''Cardiology'')"
    by code_simp+
  from removeDepartmentFromClinic_cascade[OF ok, of 1 "''CARDIOLOGY''"] u obtain ds i rest where
    r: "departmentsOf storageTwoClinics 1 = Some ds"
       "findIndex (\<lambda>d. toLowerCase d = toLowerCase (trim ''CARDIOLOGY'')) ds = Some i"
       "rest = take i ds @ drop (Suc i) ds"
       "departmentsOf s' 1 = Some rest"
       "\<forall>k. Map_get (thoughts s') k =
              map_option (reassign 1 (ds ! i) (if hd rest = [] then ''General'' else hd rest))
                (Map_get (thoughts storageTwoClinics) k)"
    by blast
  from r(1) d have ds: "ds = [''Cardiology'', ''General'']"
    by simp
  with r(2) f have i: "i = 0"
    by simp
  from r(3) ds i have rest: "rest = [''General'']"
    by simp
  have a: "departmentsOf s' 1 = Some [''General'']"
    using r(4) rest by simp
  obtain th1 where th1: "Map_get (thoughts storageTwoClinics) 1 = Some th1"
    using t1(1) by (cases "Map_get (thoughts storageTwoClinics) 1") auto
  obtain th2 where th2: "Map_get (thoughts storageTwoClinics) 2 = Some th2"
    using t1(3) by (cases "Map_get (thoughts storageTwoClinics) 2") auto
  have b: "map_option t_department (Map_get (thoughts s') 1) = Some (Some ''General'')"
    using r(5) th1 t1(1,2) ds i rest by (simp add: reassign_def)
  have c: "map_option t_department (Map_get (thoughts s') 2) = Some (Some ''Cardiology'')"
    using r(5) th2 t1(3,4) by (simp add: reassign_def)
  have e: "removeDepartmentFromClinic storageTwoClinics 2 ''Cardiology'' = (False, storageTwoClinics)"
    using removeDepartmentFromClinic_cascade[OF ok, of 2 "''Cardiology''"] d2 by simp
  from ok t a b c e show ?thesis
    unfolding s'_def by blast
qed

subsection \<open>The edit counter and the history log\<close>

















subsection \<open>Listing the thoughts of a clinic by date\<close>

lemma parse_start: "Date_parse ''2024-01-01'' = Some 1704067200000"
  by code_simp

lemma parse_end: "Date_parse ''2024-01-31'' = Some 1706659200000"
  by code_simp

text \<open>The two bounds as time values: midnight UTC of 1 January 2024, and the last
  millisecond before midnight UTC of 1 February 2024.\<close>

lemma January_bounds:
  "MakeDay 2024 1 1 * msPerDay = 1704067200000 \<and> MakeDay 2024 2 1 * msPerDay - 1 = 1706745599999"
  by code_simp

lemma end_of_day:
  assumes "0 \<le> tz" and "tz < msPerDay"
  shows "setHours_23_59_59_999 tz (Some 1706659200000) = Some (1706745599999 - tz)"
proof -
  have "(1706659200000 + tz) div 86400000 = 19753"
    using assms by (simp add: msPerDay_def)
  then show ?thesis
    by (simp add: setHours_23_59_59_999_def msPerDay_def)
qed

lemma applyFilters_January:
  assumes "0 \<le> tz" and "tz < msPerDay"
  shows "applyFilters tz (filtersJanuary\<lparr> f_includeRead := includeRead \<rparr>) xs =
           filter (\<lambda>t. 1704067200000 \<le> getTime_or_0 (t_createdAt t) \<and>
                        getTime_or_0 (t_createdAt t) \<le> 1706745599999 - tz \<and>
                        \<not> (includeRead = Some False \<and> t_isRead t = Some True)) xs"
  by (auto simp: applyFilters_def filtersJanuary_def truthy_string_def truthy_number_def Let_def
        parse_start parse_end end_of_day[OF assms] Date_ge_def Date_le_def Date_or_0_def
        getTime_or_0_def split: option.splits intro!: filter_cong)

lemma truncate_withAuthors:
  "map Thought.truncate (withAuthors s xs)
     = filter (\<lambda>t. Map_get (users s) (t_authorId t) \<noteq> None) xs"
  by (induction xs) (auto simp: Thought.defs split: option.splits)

lemma t_createdAt_extend: "t_createdAt (Thought.extend t m) = t_createdAt t"
  by (simp add: Thought.defs)

text \<open>What the listing computes on a server whose local time is at or ahead of UTC by
  less than a day: the lower bound is midnight UTC of the start date, the upper bound is
  the last millisecond of the end date in local time, and a thought whose author is not
  in the user table is skipped.\<close>

lemma getThoughtsByClinic_ahead_of_UTC:
  assumes "0 \<le> tz" and "tz < msPerDay"
  shows "mset (map Thought.truncate
                (fst (getThoughtsByClinic s tz clinicId False
                        (Some (filtersJanuary\<lparr> f_includeRead := includeRead \<rparr>)))))
           = mset (filter (inJanuary s tz clinicId includeRead) (Map_values (thoughts s))) \<and>
         sorted_wrt (\<lambda>a b. getTime_or_0 (t_createdAt b) \<le> getTime_or_0 (t_createdAt a))
           (fst (getThoughtsByClinic s tz clinicId False
                   (Some (filtersJanuary\<lparr> f_includeRead := includeRead \<rparr>))))"
proof -
  let ?kept = "filter (\<lambda>t. 1704067200000 \<le> getTime_or_0 (t_createdAt t) \<and>
                        getTime_or_0 (t_createdAt t) \<le> 1706745599999 - tz \<and>
                        \<not> (includeRead = Some False \<and> t_isRead t = Some True))
                 (filter (\<lambda>t. t_isDeleted t \<noteq> Some True)
                    (filter (\<lambda>t. t_clinicId t = clinicId) (Map_values (thoughts s))))"
  have r: "fst (getThoughtsByClinic s tz clinicId False
                  (Some (filtersJanuary\<lparr> f_includeRead := includeRead \<rparr>)))
             = sort_desc (\<lambda>a. getTime_or_0 (t_createdAt a)) (withAuthors s ?kept)"
    by (simp add: getThoughtsByClinic_def Let_def applyFilters_January[OF assms])
  have "mset (map Thought.truncate (sort_desc (\<lambda>a. getTime_or_0 (t_createdAt a)) (withAuthors s ?kept)))
          = mset (map Thought.truncate (withAuthors s ?kept))"
    by (simp add: mset_sort_desc)
  also have "\<dots> = mset (filter (\<lambda>t. Map_get (users s) (t_authorId t) \<noteq> None) ?kept)"
    by (simp only: truncate_withAuthors)
  also have "\<dots> = mset (filter (inJanuary s tz clinicId includeRead) (Map_values (thoughts s)))"
  proof -
    have "filter (\<lambda>t. Map_get (users s) (t_authorId t) \<noteq> None) ?kept
            = filter (inJanuary s tz clinicId includeRead) (Map_values (thoughts s))"
      unfolding filter_filter by (rule filter_cong) (auto simp: inJanuary_def)
    then show ?thesis
      by (rule arg_cong)
  qed
  finally have m: "mset (map Thought.truncate
                     (sort_desc (\<lambda>a. getTime_or_0 (t_createdAt a)) (withAuthors s ?kept)))
          = mset (filter (inJanuary s tz clinicId includeRead) (Map_values (thoughts s)))" .
  show ?thesis
    unfolding r using m by (simp add: sort_desc_sorted)
qed

text \<open>In UTC, the thought of 15 January whose author is unknown is not listed.\<close>

lemma getThoughtsByClinic_skips_unknown_author:
  "map (\<lambda>t. (t_clinicId t, t_isDeleted t, t_createdAt t)) (Map_values (thoughts storageOrphan))
     = [(1, Some False, Some 1705276800000)] \<and>
   fst (getThoughtsByClinic storageOrphan 0 1 False (Some filtersJanuary)) = []"
  by code_simp

text \<open>
  C8. \<open>getThoughtsByClinic\<close> with \<open>startDate = "2024-01-01"\<close> and \<open>endDate = "2024-01-31"\<close>
  is to return the non-deleted thoughts of the clinic created from 1 January 2024,
  00:00:00 to 31 January 2024, 23:59:59.999, the end date standing for its whole calendar
  day, newest first. The code does not do so on a server five hours west of UTC. In the
  example store all five thoughts belong to clinic 1, none is deleted, and their author
  is user 1, who is in the user table. Thoughts 3 and 4 were created on 31 January at
  17:00 and at 23:30 UTC, that is at 12:00 and at 18:30 local time: inside the range
  whether it is read in UTC or in local time. The listing returns thought 2 alone,
  because the end of the range is computed as 31 January, 04:59:59.999 UTC, which is the
  end of 30 January in local time. On a server in UTC the same call returns the thoughts
  4, 3 and 2.
\<close>

theorem getThoughtsByClinic_end_day_lost:
  "map (\<lambda>t. (t_id t, t_clinicId t, t_isDeleted t, t_authorId t, t_createdAt t))
     (Map_values (thoughts storageJanuary))
     = [(1, 1, Some False, 1, Some 1704067199999),
        (2, 1, Some False, 1, Some 1704067200000),
        (3, 1, Some False, 1, Some 1706720400000),
        (4, 1, Some False, 1, Some 1706743800000),
        (5, 1, Some False, 1, Some 1706745600000)] \<and>
   map fst (users storageJanuary) = [1] \<and>
   setHours_23_59_59_999 (- 18000000) (Date_parse ''2024-01-31'') = Some 1706677199999 \<and>
   map t_id (fst (getThoughtsByClinic storageJanuary (- 18000000) 1 False (Some filtersJanuary)))
     = [2] \<and>
   map t_id (fst (getThoughtsByClinic storageJanuary 0 1 False (Some filtersJanuary)))
     = [4, 3, 2]"
  by code_simp

text \<open>One hour east of UTC the listing is neither the range in UTC nor the range in
  local time: thought 1, created on 1 January at 00:59:59.999 local time, and thought 4,
  created on 31 January at 23:30 UTC, are both left out.\<close>

lemma getThoughtsByClinic_east_of_UTC:
  "map t_id (fst (getThoughtsByClinic storageJanuary 3600000 1 False (Some filtersJanuary)))
     = [3, 2]"
  by code_simp

end
